theory Spec2Isabelle
  imports Main
begin

section \<open>Values of the record format\<close>

text \<open>
  The values that the serializer inspects and that packets carry. \<open>JNum\<close> holds an
  integer: the packet ids and error codes of the protocol are integers. JavaScript numbers
  are doubles; the integers they hold exactly are the safe integers, of magnitude at most
  \<open>2^53 - 1\<close>, and for these the conversion \<open>n + ''\<close> is the decimal numeral.
  \<open>JFun\<close> holds the source text of a function (what \<open>fn.toString()\<close> returns),
  \<open>JDate\<close> the result of \<open>date.toISOString()\<close>. \<open>JObj\<close> is an object whose prototype
  is \<open>Object.prototype\<close>, as an object literal or a parsed record has it, and lists its
  own enumerable properties in enumeration order. Strings are lists of 8-bit characters.
\<close>

datatype jsval =
    JUndefined
  | JNull
  | JBool bool
  | JNum int
  | JStr string
  | JArr "jsval list"
  | JObj "(string \<times> jsval) list"
  | JFun string
  | JDate string

text \<open>JavaScript truthiness, as tested by \<open>if (x)\<close>, \<open>!x\<close>, \<open>x && y\<close> and \<open>x || y\<close>.\<close>

fun truthy :: "jsval \<Rightarrow> bool" where
  "truthy JUndefined = False"
| "truthy JNull = False"
| "truthy (JBool b) = b"
| "truthy (JNum n) = (n \<noteq> 0)"
| "truthy (JStr s) = (s \<noteq> [])"
| "truthy (JArr xs) = True"
| "truthy (JObj kvs) = True"
| "truthy (JFun f) = True"
| "truthy (JDate d) = True"

text \<open>
  The spread \<open>...x\<close> in an argument list: an array yields its elements, a string its
  characters, any other truthy value is not iterable and the spread raises a TypeError
  (\<open>None\<close>).
\<close>

fun spread :: "jsval \<Rightarrow> jsval list option" where
  "spread (JArr xs) = Some xs"
| "spread (JStr s) = Some (map (\<lambda>ch. JStr [ch]) s)"
| "spread v = None"

text \<open>JavaScript's \<open>n + ''\<close> for an integer: the decimal numeral, with a minus sign.\<close>

definition digitChar :: "nat \<Rightarrow> char" where
  "digitChar d = ''0123456789'' ! d"

fun showNat :: "nat \<Rightarrow> string" where
  "showNat n = (if n < 10 then [digitChar n] else showNat (n div 10) @ [digitChar (n mod 10)])"

declare showNat.simps [simp del]

definition showNumber :: "int \<Rightarrow> string" where
  "showNumber n = (if n < 0 then CHR ''-'' # showNat (nat (- n)) else showNat (nat n))"

text \<open>The value of a decimal digit, and 0 for any other character.\<close>

definition digitVal :: "char \<Rightarrow> nat" where
  "digitVal ch =
     (if ch = CHR ''1'' then 1 else if ch = CHR ''2'' then 2 else if ch = CHR ''3'' then 3
      else if ch = CHR ''4'' then 4 else if ch = CHR ''5'' then 5 else if ch = CHR ''6'' then 6
      else if ch = CHR ''7'' then 7 else if ch = CHR ''8'' then 8 else if ch = CHR ''9'' then 9
      else 0)"

text \<open>
  The name of the property \<open>o[v]\<close> is the string of \<open>v\<close>. \<open>numeral s\<close> is the integer
  whose decimal numeral the string \<open>s\<close> is, if there is one, and \<open>propertyIndex v\<close> the
  integer whose numeral is the string of \<open>v\<close>: of a number, of a string that is a
  numeral, and of an array of one such element, whose string is the string of the
  element. The string of any other value is not a numeral (an object is taken to convert
  by \<open>Object.prototype.toString\<close>).
\<close>

definition numeral :: "string \<Rightarrow> int option" where
  "numeral s =
     (let n = (case s of
                 [] \<Rightarrow> 0
               | ch # cs \<Rightarrow>
                   if ch = CHR ''-'' then - int (foldl (\<lambda>a d. 10 * a + digitVal d) 0 cs)
                   else int (foldl (\<lambda>a d. 10 * a + digitVal d) 0 s))
      in if showNumber n = s then Some n else None)"

fun propertyIndex :: "jsval \<Rightarrow> int option" where
  "propertyIndex (JNum n) = Some n"
| "propertyIndex (JStr s) = numeral s"
| "propertyIndex (JArr [x]) = propertyIndex x"
| "propertyIndex v = None"

text \<open>
  \<open>v[0]\<close>: the first element of an array, the first character of a string, the property
  \<open>0\<close> of an object, and undefined on any other value; on undefined and on null the
  access raises a TypeError (\<open>None\<close>).
\<close>

fun index0 :: "jsval \<Rightarrow> jsval option" where
  "index0 JUndefined = None"
| "index0 JNull = None"
| "index0 (JArr xs) = Some (case xs of [] \<Rightarrow> JUndefined | x # _ \<Rightarrow> x)"
| "index0 (JStr s) = Some (case s of [] \<Rightarrow> JUndefined | ch # _ \<Rightarrow> JStr [ch])"
| "index0 (JObj kvs) = Some (case map_of kvs ''0'' of Some v \<Rightarrow> v | None \<Rightarrow> JUndefined)"
| "index0 v = Some JUndefined"

text \<open>
  The names that every plain object inherits from \<open>Object.prototype\<close>: looked up in an
  object used as a dictionary, they are found although nothing was stored under them.
\<close>

definition objectPrototypeNames :: "string list" where
  "objectPrototypeNames =
     [''constructor'', ''__defineGetter__'', ''__defineSetter__'', ''hasOwnProperty'',
      ''__lookupGetter__'', ''__lookupSetter__'', ''isPrototypeOf'', ''propertyIsEnumerable'',
      ''toString'', ''valueOf'', ''__proto__'', ''toLocaleString'']"

section \<open>Packets\<close>

text \<open>
  A packet as the transport hands it to the connection: the parsed mapping, with its
  keys in the order of \<open>Object.keys\<close>. The empty mapping is \<open>Empty\<close>. Otherwise the first
  key is the kind and its value the header \<open>[packetId]\<close> or \<open>[packetId, target]\<close> of the
  wire format, with an integer id and a string target; the remaining keys, with values of
  any shape, follow in order. The verb keys differ from the kind key, as keys of one
  object do.
\<close>

datatype packet =
    Empty
  | Packet (kind: string) (packetId: int) (target: "string option")
      (verbs: "(string \<times> jsval) list")

text \<open>\<open>packet[name]\<close> for a key other than the kind: the value, or undefined.\<close>

definition field :: "packet \<Rightarrow> string \<Rightarrow> jsval" where
  "field p name = (case map_of (verbs p) name of Some v \<Rightarrow> v | None \<Rightarrow> JUndefined)"

text \<open>
  An object that \<open>createPacket\<close> has built: a packet with its header, or, when the verb
  is the kind itself and the assignment of the arguments has replaced the header, the
  object \<open>{kind: args}\<close>, which has no header.
\<close>

datatype outgoing =
    Framed packet
  | Overwritten string jsval

text \<open>
  \<open>packet[kind][0]\<close>, read and assigned. Without a header these act on the arguments;
  the code is in strict mode, where assigning to a property of undefined, null, a number,
  a string or a boolean raises a TypeError (\<open>None\<close>). A property \<open>0\<close> is the first in
  the enumeration of an object's properties.
\<close>

definition headerId :: "outgoing \<Rightarrow> jsval option" where
  "headerId p = (case p of Framed q \<Rightarrow> Some (JNum (packetId q)) | Overwritten k a \<Rightarrow> index0 a)"

definition setHeaderId :: "outgoing \<Rightarrow> int \<Rightarrow> outgoing option" where
  "setHeaderId p pid =
     (case p of
        Framed q \<Rightarrow> Some (Framed (Packet (kind q) pid (target q) (verbs q)))
      | Overwritten k a \<Rightarrow>
          (case a of
             JArr xs \<Rightarrow> Some (Overwritten k (JArr (JNum pid # tl xs)))
           | JObj kvs \<Rightarrow>
               Some (Overwritten k (JObj ((''0'', JNum pid) # filter (\<lambda>kv. fst kv \<noteq> ''0'') kvs)))
           | JFun f \<Rightarrow> Some p
           | JDate d \<Rightarrow> Some p
           | _ \<Rightarrow> None))"

section \<open>Collaborators of the connection\<close>

text \<open>
  Modelled from the spec: the application registry (lib/applications.js is not among the
  sources). An application is a name and a mapping from interface names to the method
  names of the interface, in a stable order; \<open>getMethods\<close> returns the method names of an
  interface excluding those with a leading underscore, or null (\<open>None\<close>) for an unknown
  interface. The handlers themselves are outside the model: a call into the application
  is recorded as an effect.
\<close>

datatype application =
  Application (appName: string) (interfaces: "(string \<times> string list) list")

definition getMethods :: "application \<Rightarrow> string option \<Rightarrow> string list option" where
  "getMethods app interfaceName =
     (case interfaceName of
        None \<Rightarrow> None
      | Some name \<Rightarrow>
          (case map_of (interfaces app) name of
             None \<Rightarrow> None
           | Some ms \<Rightarrow> Some (filter (\<lambda>m. take 1 m \<noteq> ''_'') ms)))"

text \<open>
  The server and client contexts, as far as the connection reads them:
  \<open>server.applications\<close> and \<open>client.application\<close>.
\<close>

datatype server = Server (applications: "(string \<times> application) list")

datatype client = Client (clientApplication: "application option")

text \<open>
  Modelled from the spec: the error codes and their wire form (lib/errors.js is not among
  the sources). The wire form of an error code is the sequence \<open>[code]\<close>.
\<close>

definition ERR_APP_NOT_FOUND :: int where "ERR_APP_NOT_FOUND = 1"
definition ERR_AUTH_FAILED :: int where "ERR_AUTH_FAILED = 2"
definition ERR_INTERFACE_NOT_FOUND :: int where "ERR_INTERFACE_NOT_FOUND = 3"
definition ERR_METHOD_NOT_FOUND :: int where "ERR_METHOD_NOT_FOUND = 4"
definition ERR_NOT_A_SERVER :: int where "ERR_NOT_A_SERVER = 5"
definition ERR_INVALID_SIGNATURE :: int where "ERR_INVALID_SIGNATURE = 6"
definition ERR_INTERNAL_API_ERROR :: int where "ERR_INTERNAL_API_ERROR = 7"

definition getJstpArrayFor :: "int \<Rightarrow> jsval" where
  "getJstpArrayFor code = JArr [JNum code]"

text \<open>
  Errors as values handed to callbacks and listeners: the \<open>RemoteError\<close> that
  \<open>errors.RemoteError.fromJstpArray\<close> builds from a wire array, and an error reported
  by the transport.
\<close>

datatype jserror = RemoteError jsval | TransportError string

text \<open>
  The first argument of a continuation: missing (\<open>callback()\<close>), null, or an error.
  Only an error is truthy.
\<close>

datatype errarg = Absent | Null | Err jserror

fun isError :: "errarg \<Rightarrow> bool" where
  "isError (Err e) = True"
| "isError a = False"

text \<open>
  Modelled from the spec: a remote proxy is \<open>(connection, interfaceName, methods)\<close>
  (lib/remote-proxy.js is not among the sources). \<open>new RemoteProxy(...)\<close> creates a
  fresh object; \<open>proxyRef\<close> is the identity of that object, taken from the allocation
  counter of the connection that creates it.
\<close>

record remoteProxy =
  proxyRef :: nat
  interfaceName :: string
  methods :: "jsval list"

section \<open>The connection\<close>

text \<open>A function supplied by the caller of the connection's API, known by its identity.\<close>

type_synonym cbref = nat

text \<open>
  The continuations that the connection stores in \<open>_callbacks\<close>: the caller's callback
  itself or \<open>this._emitError\<close> (callMethod), \<open>common.doNothing\<close> (ping), and the two
  closures built by handshake and inspectInterface, with the variables they capture.
\<close>

datatype continuation =
    UserCallback cbref
  | EmitError
  | DoNothing
  | HandshakeCallback jsval jsval "cbref option"
  | InspectCallback string "cbref option"

datatype event =
    PacketRejected packet
  | CloseEvent
  | ErrorEvent jserror
  | ClientEvent jsval
  | EventEvent "string option" "string option" jsval

datatype serverEvent = Connect | Disconnect

datatype exn = TypeError

text \<open>
  What a connection does to the outside, in the order it does it: packets given to the
  transport (\<open>Send p\<close> is \<open>transport.send(json5.stringify(p))\<close>, \<open>SendObject k a\<close>
  the same for the object \<open>{k: a}\<close>, and likewise \<open>End\<close> and \<open>EndObject\<close> for
  \<open>transport.end\<close>), events emitted, user callbacks called, calls into the server and
  the application, timer requests, the call of a function held in a value (what the
  function does is not followed), and an exception that leaves the current handler. \<open>Invoked pid e rs\<close> marks the call of the
  continuation that was registered under \<open>pid\<close>, with first argument \<open>e\<close> and remaining
  arguments \<open>rs\<close>; what the continuation then does follows it.
\<close>

datatype effect =
    Send packet
  | SendObject string jsval
  | SendRaw string
  | End "packet option"
  | EndObject string jsval
  | Emit event
  | ServerEmit serverEvent
  | Invoked int errarg "jsval list"
  | Called cbref errarg "jsval list"
  | CalledWithProxy cbref remoteProxy
  | StartSession application string jsval
  | AppCallMethod application "string option" string jsval int
  | EmitLocal remoteProxy "string option" jsval
  | SetTimeout nat
  | ClearTimeout
  | CallFunction string
  | Throw exn

text \<open>
  The fields of a Connection object. \<open>_callbacks\<close> and \<open>remoteProxies\<close> are objects used
  as dictionaries and are modelled as maps of their own properties. The ids of incoming
  packets are integers, so the handlers read \<open>_callbacks\<close> under the numerals of integers
  only: \<open>callbacks\<close> holds the properties whose names are such numerals, by the integer,
  and \<open>otherCallbacks\<close> lists, in the order of the assignments, what was stored under any
  other name, with the value whose string is that name. \<open>nextRef\<close> counts the proxies
  allocated so far, and \<open>trace\<close> is the log of effects so far; listeners and callbacks are
  assumed not to call back into the connection before the handler that called them
  returns.
\<close>

record connection =
  connId :: nat
  server :: "server option"
  client :: "client option"
  remoteAddress :: string
  nextPacketId :: int
  packetIdDelta :: int
  callbacks :: "int \<Rightarrow> continuation option"
  otherCallbacks :: "(jsval \<times> continuation) list"
  handshakeDone :: bool
  username :: jsval
  sessionId :: jsval
  application :: "application option"
  remoteProxies :: "string \<Rightarrow> remoteProxy option"
  heartbeatCallbackInstance :: "nat option"
  nextRef :: nat
  trace :: "effect list"

datatype constructionError = EitherServerOrClientRequired

text \<open>
  The constructor, given the value of the global \<open>nextConnectionId\<close> and the
  transport's \<open>remoteAddress\<close>: the id delta is -1 with a server and no client, +1
  with a client and no server, and anything else is an error. \<open>initialFields\<close> are the
  assignments of the constructor.
\<close>

definition initialFields ::
  "nat \<Rightarrow> string \<Rightarrow> server option \<Rightarrow> client option \<Rightarrow> int \<Rightarrow> connection" where
  "initialFields nextConnectionId address srv cl delta =
     \<lparr> connId = nextConnectionId, server = srv, client = cl,
       remoteAddress = address, nextPacketId = 0, packetIdDelta = delta,
       callbacks = Map.empty, otherCallbacks = [], handshakeDone = False, username = JNull,
       sessionId = JNull, application = None, remoteProxies = Map.empty,
       heartbeatCallbackInstance = None, nextRef = 0, trace = [] \<rparr>"

definition Connection ::
  "nat \<Rightarrow> string \<Rightarrow> server option \<Rightarrow> client option \<Rightarrow> constructionError + connection" where
  "Connection nextConnectionId address srv cl =
     (if srv \<noteq> None \<and> cl = None then Inr (initialFields nextConnectionId address srv cl (- 1))
      else if cl \<noteq> None \<and> srv = None then Inr (initialFields nextConnectionId address srv cl 1)
      else Inl EitherServerOrClientRequired)"

definition log :: "connection \<Rightarrow> effect list \<Rightarrow> connection" where
  "log c es = c\<lparr>trace := trace c @ es\<rparr>"

text \<open>
  \<open>createPacket(kind, target, verb, args)\<close>: the header \<open>[id]\<close> or \<open>[id, target]\<close>
  is stored under the kind, with the target when it is truthy; when the verb is truthy
  the arguments are assigned to \<open>packet[verb]\<close>; the next id advances. The assignment
  adds the verb key, unless the verb is the kind, where it replaces the header, or is
  \<open>__proto__\<close>, where it adds no property.
\<close>

definition createPacket ::
  "connection \<Rightarrow> string \<Rightarrow> string option \<Rightarrow> string option \<Rightarrow> jsval \<Rightarrow> outgoing \<times> connection" where
  "createPacket c knd tgt verb args =
     (let hd_target = (case tgt of Some t \<Rightarrow> if t \<noteq> [] then Some t else None | None \<Rightarrow> None);
          packet =
            (case verb of
               None \<Rightarrow> Framed (Packet knd (nextPacketId c) hd_target [])
             | Some v \<Rightarrow>
                 if v = [] \<or> v = ''__proto__'' then Framed (Packet knd (nextPacketId c) hd_target [])
                 else if v = knd then Overwritten knd args
                 else Framed (Packet knd (nextPacketId c) hd_target [(v, args)]))
      in (packet, c\<lparr>nextPacketId := nextPacketId c + packetIdDelta c\<rparr>))"

definition send :: "connection \<Rightarrow> outgoing \<Rightarrow> connection" where
  "send c p = (case p of Framed q \<Rightarrow> log c [Send q] | Overwritten k a \<Rightarrow> log c [SendObject k a])"

definition stopHeartbeat :: "connection \<Rightarrow> connection" where
  "stopHeartbeat c =
     (case heartbeatCallbackInstance c of
        Some interval \<Rightarrow> (log c [ClearTimeout])\<lparr>heartbeatCallbackInstance := None\<rparr>
      | None \<Rightarrow> c)"

definition heartbeatCallback :: "connection \<Rightarrow> nat \<Rightarrow> connection" where
  "heartbeatCallback c interval = log c [SendRaw ''{}'', SetTimeout interval]"

definition startHeartbeat :: "connection \<Rightarrow> nat \<Rightarrow> connection" where
  "startHeartbeat c interval =
     heartbeatCallback (c\<lparr>heartbeatCallbackInstance := Some interval\<rparr>) interval"

definition endConnection :: "connection \<Rightarrow> outgoing option \<Rightarrow> connection" where
  "endConnection c p =
     log (stopHeartbeat c)
       [case p of
          None \<Rightarrow> End None
        | Some (Framed q) \<Rightarrow> End (Some q)
        | Some (Overwritten k a) \<Rightarrow> EndObject k a]"

definition close :: "connection \<Rightarrow> connection" where
  "close c = log (stopHeartbeat c) [End None]"

definition onSocketClose :: "connection \<Rightarrow> connection" where
  "onSocketClose c =
     (let c1 = log (stopHeartbeat c) [Emit CloseEvent]
      in if server c1 \<noteq> None then log c1 [ServerEmit Disconnect] else c1)"

definition onSocketError :: "connection \<Rightarrow> string \<Rightarrow> connection" where
  "onSocketError c err = log (endConnection c None) [Emit (ErrorEvent (TransportError err))]"

definition rejectPacket :: "connection \<Rightarrow> packet \<Rightarrow> bool \<Rightarrow> connection" where
  "rejectPacket c p fatal =
     (let c1 = log c [Emit (PacketRejected p)]
      in if fatal then endConnection c1 None else c1)"


section \<open>The API of the connection\<close>

text \<open>
  \<open>this._callbacks[v] = k\<close>: under the integer whose numeral is the string of \<open>v\<close>, or
  else under another name.
\<close>

definition register :: "connection \<Rightarrow> int \<Rightarrow> continuation \<Rightarrow> connection" where
  "register c pid k = c\<lparr>callbacks := (callbacks c)(pid \<mapsto> k)\<rparr>"

definition store :: "connection \<Rightarrow> jsval \<Rightarrow> continuation \<Rightarrow> connection" where
  "store c v k =
     (case propertyIndex v of
        Some n \<Rightarrow> register c n k
      | None \<Rightarrow> c\<lparr>otherCallbacks := otherCallbacks c @ [(v, k)]\<rparr>)"

text \<open>
  \<open>callMethod\<close> reads the id back from the packet, as \<open>packet.call[0]\<close>, stores the
  continuation under it and sends the packet. With the method name \<open>call\<close> the packet is
  \<open>{call: args}\<close> and the id read back is \<open>args[0]\<close>.
\<close>

definition callMethod ::
  "connection \<Rightarrow> string \<Rightarrow> string \<Rightarrow> jsval \<Rightarrow> cbref option \<Rightarrow> connection" where
  "callMethod c iface methodName args callback =
     (let (p, c1) = createPacket c ''call'' (Some iface) (Some methodName) args
      in case headerId p of
           None \<Rightarrow> log c1 [Throw TypeError]
         | Some v \<Rightarrow>
             send (store c1 v (case callback of Some f \<Rightarrow> UserCallback f | None \<Rightarrow> EmitError)) p)"

text \<open>
  \<open>callback(packetId, error, result)\<close>: the error is an error code or null; the id that
  createPacket assigned is overwritten with the id of the packet that is answered.
\<close>

definition callback :: "connection \<Rightarrow> int \<Rightarrow> int option \<Rightarrow> jsval \<Rightarrow> connection" where
  "callback c pid error result =
     (let (p, c1) =
        (case error of
           Some e \<Rightarrow>
             if e \<noteq> 0 then createPacket c ''callback'' None (Some ''error'') (getJstpArrayFor e)
             else createPacket c ''callback'' None (Some ''ok'') result
         | None \<Rightarrow> createPacket c ''callback'' None (Some ''ok'') result)
      in case setHeaderId p pid of
           None \<Rightarrow> log c1 [Throw TypeError]
         | Some q \<Rightarrow> send c1 q)"

definition emitRemoteEvent :: "connection \<Rightarrow> string \<Rightarrow> string \<Rightarrow> jsval \<Rightarrow> connection" where
  "emitRemoteEvent c iface eventName args =
     (let (p, c1) = createPacket c ''event'' (Some iface) (Some eventName) args
      in send c1 p)"

definition handshake ::
  "connection \<Rightarrow> string \<Rightarrow> jsval \<Rightarrow> jsval \<Rightarrow> cbref option \<Rightarrow> connection" where
  "handshake c app login password cb =
     (let (p, c1) =
        (if truthy login \<and> truthy password
         then createPacket c ''handshake'' (Some app) (Some ''login'') (JArr [login, password])
         else createPacket c ''handshake'' (Some app) None JUndefined)
      in case headerId p of
           None \<Rightarrow> log c1 [Throw TypeError]
         | Some v \<Rightarrow> send (store c1 v (HandshakeCallback login password cb)) p)"

definition inspectInterface :: "connection \<Rightarrow> string \<Rightarrow> cbref option \<Rightarrow> connection" where
  "inspectInterface c iface cb =
     (let (p, c1) = createPacket c ''inspect'' (Some iface) None JNull
      in case headerId p of
           None \<Rightarrow> log c1 [Throw TypeError]
         | Some v \<Rightarrow> send (store c1 v (InspectCallback iface cb)) p)"

definition ping :: "connection \<Rightarrow> cbref option \<Rightarrow> connection" where
  "ping c cb =
     (let (p, c1) = createPacket c ''ping'' None None JUndefined
      in case headerId p of
           None \<Rightarrow> log c1 [Throw TypeError]
         | Some v \<Rightarrow>
             send (store c1 v (case cb of Some f \<Rightarrow> UserCallback f | None \<Rightarrow> DoNothing)) p)"

definition pong :: "connection \<Rightarrow> int \<Rightarrow> connection" where
  "pong c pid = send c (Framed (Packet ''pong'' pid None []))"

section \<open>Calling a stored continuation\<close>

text \<open>
  The bodies of the functions stored in \<open>_callbacks\<close>, called with first argument
  \<open>e\<close> and remaining arguments \<open>rs\<close>.
\<close>

fun runContinuation ::
  "continuation \<Rightarrow> errarg \<Rightarrow> jsval list \<Rightarrow> connection \<Rightarrow> connection" where
  "runContinuation (UserCallback f) e rs c = log c [Called f e rs]"
| "runContinuation EmitError e rs c =
     (case e of Err x \<Rightarrow> log c [Emit (ErrorEvent x)] | _ \<Rightarrow> c)"
| "runContinuation DoNothing e rs c = c"
| "runContinuation (HandshakeCallback login password cb) e rs c =
     (let sid = (case rs of [] \<Rightarrow> JUndefined | s # _ \<Rightarrow> s);
          c1 = (if truthy login \<and> truthy password \<and> \<not> isError e
                then c\<lparr>username := login\<rparr> else c);
          c2 = c1\<lparr>sessionId := sid\<rparr>
      in case cb of Some f \<Rightarrow> log c2 [Called f e [sid]] | None \<Rightarrow> c2)"
| "runContinuation (InspectCallback iface cb) e rs c =
     (case e of
        Err x \<Rightarrow>
          (case cb of Some f \<Rightarrow> log c [Called f e []] | None \<Rightarrow> log c [Emit (ErrorEvent x)])
      | _ \<Rightarrow>
          (let proxy = \<lparr> proxyRef = nextRef c, interfaceName = iface, methods = rs \<rparr>;
               c1 = c\<lparr>remoteProxies := (remoteProxies c)(iface \<mapsto> proxy),
                       nextRef := Suc (nextRef c)\<rparr>
           in case cb of Some f \<Rightarrow> log c1 [CalledWithProxy f proxy] | None \<Rightarrow> c1))"

definition invoke ::
  "int \<Rightarrow> continuation \<Rightarrow> errarg \<Rightarrow> jsval list \<Rightarrow> connection \<Rightarrow> connection" where
  "invoke pid k e rs c = runContinuation k e rs (log c [Invoked pid e rs])"

section \<open>Processing incoming packets\<close>

definition handshakeError :: "connection \<Rightarrow> int \<Rightarrow> connection" where
  "handshakeError c error =
     (let (p, c1) = createPacket c ''handshake'' None (Some ''error'') (getJstpArrayFor error)
      in endConnection c1 (Some p))"

text \<open>
  A handshake request, whose header carries the (truthy) application name. The
  authentication strategy is the second key of the packet, and \<open>anonymous\<close> when that key
  is missing or empty; the call of \<open>server.startSession\<close> is recorded, and its callback
  is \<open>onSessionCreated\<close>.
\<close>

definition processHandshakeRequest :: "connection \<Rightarrow> packet \<Rightarrow> connection" where
  "processHandshakeRequest c p =
     (case server c of
        None \<Rightarrow> handshakeError c ERR_NOT_A_SERVER
      | Some srv \<Rightarrow>
          (case map_of (applications srv) (case target p of Some t \<Rightarrow> t | None \<Rightarrow> []) of
             None \<Rightarrow> handshakeError c ERR_APP_NOT_FOUND
           | Some app \<Rightarrow>
               (let c1 = c\<lparr>application := Some app\<rparr>;
                    (authStrategy, credentials) =
                      (case verbs p of
                         [] \<Rightarrow> (''anonymous'', JUndefined)
                       | (k, v) # _ \<Rightarrow> if k \<noteq> [] then (k, v) else (''anonymous'', JStr []))
                in log c1 [StartSession app authStrategy credentials])))"

definition onSessionCreated :: "connection \<Rightarrow> jsval \<Rightarrow> jsval \<Rightarrow> jsval \<Rightarrow> connection" where
  "onSessionCreated c error uname sid =
     (if truthy error then handshakeError c ERR_AUTH_FAILED
      else
        (let c1 = c\<lparr>username := uname, handshakeDone := True, sessionId := sid\<rparr>;
             c2 = log c1 [Emit (ClientEvent sid)]
         in case server c2 of
              None \<Rightarrow> log c2 [Throw TypeError]
            | Some srv \<Rightarrow>
                (let c3 = log c2 [ServerEmit Connect];
                     (p, c4) = createPacket c3 ''handshake'' None (Some ''ok'') sid
                 in send c4 p)))"

definition processHandshakeResponse :: "connection \<Rightarrow> packet \<Rightarrow> connection" where
  "processHandshakeResponse c p =
     (let pid = packetId p;
          cb = callbacks c pid;
          c1 = (if cb = None then rejectPacket c p False else c)
      in if truthy (field p ''ok'') then
           (let c2 = c1\<lparr>callbacks := (callbacks c1)(pid := None), handshakeDone := True\<rparr>
            in case client c2 of
                 None \<Rightarrow> log c2 [Throw TypeError]
               | Some cl \<Rightarrow>
                   (let c3 = c2\<lparr>application := clientApplication cl\<rparr>
                    in case cb of
                         None \<Rightarrow> log c3 [Throw TypeError]
                       | Some k \<Rightarrow> invoke pid k Null [field p ''ok''] c3))
         else if truthy (field p ''error'') then
           (let c2 = c1\<lparr>callbacks := (callbacks c1)(pid := None)\<rparr>
            in case cb of
                 None \<Rightarrow> log c2 [Throw TypeError]
               | Some k \<Rightarrow> invoke pid k (Err (RemoteError (field p ''error''))) [] c2)
         else rejectPacket c1 p True)"

definition processHandshakePacket :: "connection \<Rightarrow> packet \<Rightarrow> connection" where
  "processHandshakePacket c p =
     (if handshakeDone c then rejectPacket c p True
      else if (case target p of Some t \<Rightarrow> t \<noteq> [] | None \<Rightarrow> False)
      then processHandshakeRequest c p
      else processHandshakeResponse c p)"

definition remoteCallbackWrapper ::
  "connection \<Rightarrow> int \<Rightarrow> int option \<Rightarrow> jsval list \<Rightarrow> connection" where
  "remoteCallbackWrapper c pid error result = callback c pid error (JArr result)"

text \<open>
  A call packet. The method name is the second key and the arguments its value. The call
  of \<open>application.callMethod\<close> is recorded; the handler answers through
  \<open>remoteCallbackWrapper\<close>. With no application attached the call raises inside
  the \<open>try\<close>, is answered with an internal error and raised again. An exception of
  the handler itself is \<open>callMethodThrew\<close>.
\<close>

definition processCallPacket :: "connection \<Rightarrow> packet \<Rightarrow> connection" where
  "processCallPacket c p =
     (case verbs p of
        [] \<Rightarrow> remoteCallbackWrapper c (packetId p) (Some ERR_INVALID_SIGNATURE) []
      | (methodName, args) # _ \<Rightarrow>
          if \<not> truthy args
          then remoteCallbackWrapper c (packetId p) (Some ERR_INVALID_SIGNATURE) []
          else
            (case application c of
               None \<Rightarrow>
                 log (remoteCallbackWrapper c (packetId p) (Some ERR_INTERNAL_API_ERROR) [])
                   [Throw TypeError]
             | Some app \<Rightarrow> log c [AppCallMethod app (target p) methodName args (packetId p)]))"

definition callMethodThrew :: "connection \<Rightarrow> int \<Rightarrow> connection" where
  "callMethodThrew c pid = remoteCallbackWrapper c pid (Some ERR_INTERNAL_API_ERROR) []"

definition processCallbackPacket :: "connection \<Rightarrow> packet \<Rightarrow> connection" where
  "processCallbackPacket c p =
     (let pid = packetId p
      in case callbacks c pid of
           Some k \<Rightarrow>
             (let c1 = c\<lparr>callbacks := (callbacks c)(pid := None)\<rparr>
              in if truthy (field p ''ok'') then
                   (case spread (field p ''ok'') of
                      None \<Rightarrow> log c1 [Throw TypeError]
                    | Some rs \<Rightarrow> invoke pid k Null rs c1)
                 else if truthy (field p ''error'') then
                   invoke pid k (Err (RemoteError (field p ''error''))) [] c1
                 else rejectPacket c1 p False)
         | None \<Rightarrow> rejectPacket c p False)"

text \<open>
  An event packet. Under a name that \<open>remoteProxies\<close> inherits and does not hold, the
  lookup finds the member of \<open>Object.prototype\<close>, which has no \<open>_emitLocal\<close>.
\<close>

definition processEventPacket :: "connection \<Rightarrow> packet \<Rightarrow> connection" where
  "processEventPacket c p =
     (let eventName = (case verbs p of [] \<Rightarrow> None | (k, v) # _ \<Rightarrow> Some k);
          eventArgs = (case verbs p of [] \<Rightarrow> JUndefined | (k, v) # _ \<Rightarrow> v);
          c1 = log c [Emit (EventEvent (target p) eventName eventArgs)];
          interfaceName = (case target p of Some t \<Rightarrow> t | None \<Rightarrow> ''undefined'')
      in case remoteProxies c1 interfaceName of
           Some proxy \<Rightarrow> log c1 [EmitLocal proxy eventName eventArgs]
         | None \<Rightarrow>
             if interfaceName \<in> set objectPrototypeNames then log c1 [Throw TypeError]
             else c1)"

definition processInspectPacket :: "connection \<Rightarrow> packet \<Rightarrow> connection" where
  "processInspectPacket c p =
     (case application c of
        None \<Rightarrow> log c [Throw TypeError]
      | Some app \<Rightarrow>
          (case getMethods app (target p) of
             Some ms \<Rightarrow> callback c (packetId p) None (JArr (map JStr ms))
           | None \<Rightarrow> callback c (packetId p) (Some ERR_INTERFACE_NOT_FOUND) JUndefined))"

definition processPingPacket :: "connection \<Rightarrow> packet \<Rightarrow> connection" where
  "processPingPacket c p = pong c (packetId p)"

definition processPongPacket :: "connection \<Rightarrow> packet \<Rightarrow> connection" where
  "processPongPacket c p =
     (let pid = packetId p
      in case callbacks c pid of
           Some k \<Rightarrow> invoke pid k Absent [] (c\<lparr>callbacks := (callbacks c)(pid := None)\<rparr>)
         | None \<Rightarrow> c)"

text \<open>
  The conversion of a packet to a property name: by \<open>Object.prototype.toString\<close>,
  unless the packet has a key \<open>toString\<close>. A function under that key, or else under
  \<open>valueOf\<close>, is called; without one the conversion raises a TypeError.
\<close>

definition toPropertyKey :: "connection \<Rightarrow> packet \<Rightarrow> connection" where
  "toPropertyKey c p =
     (case map_of (verbs p) ''toString'' of
        None \<Rightarrow> c
      | Some (JFun f) \<Rightarrow> log c [CallFunction f]
      | Some v \<Rightarrow>
          (case map_of (verbs p) ''valueOf'' of
             Some (JFun g) \<Rightarrow> log c [CallFunction g]
           | _ \<Rightarrow> log c [Throw TypeError]))"

text \<open>
  The table \<open>PACKET_HANDLERS\<close>, a plain object: besides its seven entries a lookup finds
  the members of \<open>Object.prototype\<close>, which are truthy and are then called with the
  connection as \<open>this\<close> and the arguments \<open>(packet, keys)\<close>. Of these, \<open>constructor\<close>,
  \<open>isPrototypeOf\<close>, \<open>toString\<close>, \<open>valueOf\<close> and \<open>toLocaleString\<close> return a value and
  do nothing else; \<open>hasOwnProperty\<close>, \<open>propertyIsEnumerable\<close>, \<open>__lookupGetter__\<close> and
  \<open>__lookupSetter__\<close> first convert the packet to a property name;
  \<open>__defineGetter__\<close> and \<open>__defineSetter__\<close> raise a TypeError, since \<open>keys\<close> is not
  a function, and so does \<open>__proto__\<close>, which is an object without a method \<open>call\<close>.
\<close>

definition PACKET_HANDLERS :: "string \<Rightarrow> (connection \<Rightarrow> packet \<Rightarrow> connection) option" where
  "PACKET_HANDLERS k =
     (if k = ''handshake'' then Some processHandshakePacket
      else if k = ''call'' then Some processCallPacket
      else if k = ''callback'' then Some processCallbackPacket
      else if k = ''event'' then Some processEventPacket
      else if k = ''inspect'' then Some processInspectPacket
      else if k = ''ping'' then Some processPingPacket
      else if k = ''pong'' then Some processPongPacket
      else if k \<in> set [''constructor'', ''isPrototypeOf'', ''toString'', ''valueOf'',
                        ''toLocaleString'']
      then Some (\<lambda>c p. c)
      else if k \<in> set [''hasOwnProperty'', ''propertyIsEnumerable'', ''__lookupGetter__'',
                        ''__lookupSetter__'']
      then Some toPropertyKey
      else if k \<in> set [''__defineGetter__'', ''__defineSetter__'', ''__proto__'']
      then Some (\<lambda>c p. log c [Throw TypeError])
      else None)"

definition processPacket :: "connection \<Rightarrow> packet \<Rightarrow> connection" where
  "processPacket c p =
     (case p of
        Empty \<Rightarrow> c
      | Packet knd pid tgt vs \<Rightarrow>
          if \<not> handshakeDone c \<and> knd \<noteq> ''handshake'' then rejectPacket c p True
          else
            (case PACKET_HANDLERS knd of
               Some handler \<Rightarrow> handler c p
             | None \<Rightarrow> rejectPacket c p False))"

section \<open>Runs of a connection\<close>

text \<open>
  Everything that can happen to a connection: a call of its API, an event of its
  transport, and the answers of the server's session policy and of the application. The
  firing of the heartbeat timer, which sends the next empty packet, is not among the
  actions.
\<close>

datatype action =
    CallMethod string string jsval "cbref option"
  | Callback int "int option" jsval
  | EmitRemoteEvent string string jsval
  | Handshake string jsval jsval "cbref option"
  | InspectInterface string "cbref option"
  | Ping "cbref option"
  | Pong int
  | StartHeartbeat nat
  | StopHeartbeat
  | Close
  | SocketClose
  | SocketError string
  | Receive packet
  | SessionCreated jsval jsval jsval
  | RemoteCallback int "int option" "jsval list"
  | CallMethodThrew int

fun step :: "connection \<Rightarrow> action \<Rightarrow> connection" where
  "step c (CallMethod iface m args cb) = callMethod c iface m args cb"
| "step c (Callback pid error result) = callback c pid error result"
| "step c (EmitRemoteEvent iface ev args) = emitRemoteEvent c iface ev args"
| "step c (Handshake app login password cb) = handshake c app login password cb"
| "step c (InspectInterface iface cb) = inspectInterface c iface cb"
| "step c (Ping cb) = ping c cb"
| "step c (Pong pid) = pong c pid"
| "step c (StartHeartbeat interval) = startHeartbeat c interval"
| "step c StopHeartbeat = stopHeartbeat c"
| "step c Close = close c"
| "step c SocketClose = onSocketClose c"
| "step c (SocketError err) = onSocketError c err"
| "step c (Receive p) = processPacket c p"
| "step c (SessionCreated error uname sid) = onSessionCreated c error uname sid"
| "step c (RemoteCallback pid error result) = remoteCallbackWrapper c pid error result"
| "step c (CallMethodThrew pid) = callMethodThrew c pid"

definition run :: "connection \<Rightarrow> action list \<Rightarrow> connection" where
  "run c as = foldl step c as"


section \<open>The record serializer\<close>

text \<open>\<open>Array.prototype.join\<close> on an array of strings.\<close>

fun join :: "string \<Rightarrow> string list \<Rightarrow> string" where
  "join sep [] = []"
| "join sep [x] = x"
| "join sep (x # y # ys) = x @ sep @ join sep (y # ys)"

text \<open>\<open>s.replace(/'/g, '\\\'')\<close>: a backslash before every single quote.\<close>

definition escapeQuotes :: "string \<Rightarrow> string" where
  "escapeQuotes s = concat (map (\<lambda>ch. if ch = CHR 0x27 then [CHR 0x5C, CHR 0x27] else [ch]) s)"

text \<open>
  The serializers that \<open>createSerializer\<close> takes as \<open>additionalTypes\<close> and that
  extend the default table \<open>serialize.types\<close>: both callers supply the entries for
  functions and for dates.
\<close>

record additionalTypes =
  functionType :: "string \<Rightarrow> string"
  dateType :: "string \<Rightarrow> string"

text \<open>
  A function value is known by its source text. The object serializer calls
  \<open>obj.hasOwnProperty(key)\<close> on the object that it serializes, and when the object has a
  property of that name the call goes to the value stored there. What such a call returns
  is a parameter of the serializer: for the function and the key, whether the result is
  truthy, or \<open>None\<close> when the call raises; the function is taken to change nothing.
\<close>

type_synonym calls = "string \<Rightarrow> string \<Rightarrow> bool option"

text \<open>
  \<open>obj.hasOwnProperty(key)\<close> for a key that the enumeration of \<open>obj\<close> has produced.
  Without a property \<open>hasOwnProperty\<close> of its own the object inherits the method of
  \<open>Object.prototype\<close>, which answers true for the object's own keys; a property that is
  a function is called; any other value is not callable and the call raises a TypeError
  (\<open>None\<close>).
\<close>

definition hasOwnProperty :: "calls \<Rightarrow> (string \<times> jsval) list \<Rightarrow> string \<Rightarrow> bool option" where
  "hasOwnProperty own kvs key =
     (case map_of kvs ''hasOwnProperty'' of
        None \<Rightarrow> Some True
      | Some (JFun f) \<Rightarrow> own f key
      | Some v \<Rightarrow> None)"

text \<open>
  \<open>serialize(object, index, array)\<close> of \<open>createSerializer\<close>; \<open>None\<close> is a TypeError
  raised on the way. The flag tells whether the third argument is present, which it is
  when \<open>a.map(serialize)\<close> makes the call and is not at the top level and for the value
  of an object's field. Null has the type \<open>undefined\<close>. The object serializer goes
  through the keys: a key for which \<open>hasOwnProperty\<close> answers false is skipped, and a
  field whose text is \<open>undefined\<close> is left out.
\<close>

fun serialize :: "calls \<Rightarrow> additionalTypes \<Rightarrow> bool \<Rightarrow> jsval \<Rightarrow> string option" where
  "serialize own t arr JUndefined = Some (if arr then [] else ''undefined'')"
| "serialize own t arr JNull = Some (if arr then [] else ''undefined'')"
| "serialize own t arr (JBool b) = Some (if b then ''true'' else ''false'')"
| "serialize own t arr (JNum n) = Some (showNumber n)"
| "serialize own t arr (JStr s) = Some ([CHR 0x27] @ escapeQuotes s @ [CHR 0x27])"
| "serialize own t arr (JArr xs) =
     (case those (map (serialize own t True) xs) of
        None \<Rightarrow> None
      | Some texts \<Rightarrow> Some (''['' @ join '','' texts @ '']''))"
| "serialize own t arr (JObj kvs) =
     (case those
        (map (\<lambda>kv.
                case hasOwnProperty own kvs (fst kv) of
                  None \<Rightarrow> None
                | Some False \<Rightarrow> Some []
                | Some True \<Rightarrow>
                    (case serialize own t False (snd kv) of
                       None \<Rightarrow> None
                     | Some repr \<Rightarrow>
                         Some (if repr \<noteq> ''undefined'' then [fst kv @ '':'' @ repr] else [])))
           kvs) of
        None \<Rightarrow> None
      | Some parts \<Rightarrow> Some (''{'' @ join '','' (concat parts) @ ''}''))"
| "serialize own t arr (JFun f) = Some (functionType t f)"
| "serialize own t arr (JDate d) = Some (dateType t d)"


definition dump :: "calls \<Rightarrow> jsval \<Rightarrow> string option" where
  "dump own v =
     serialize own \<lparr> functionType = (\<lambda>f. f),
                     dateType = (\<lambda>d. ''new Date('' @ [CHR 0x27] @ d @ [CHR 0x27] @ '')'') \<rparr>
       False v"

section \<open>The record parser\<close>














section \<open>Notions used by the properties\<close>

text \<open>
  The ids that the packets built by consecutive calls of \<open>createPacket\<close> carry, one call
  for each request \<open>(kind, target, verb, args)\<close>: what a reader of the packet finds as
  \<open>packet[kind][0]\<close>.
\<close>

fun assignedIds ::
  "connection \<Rightarrow> (string \<times> string option \<times> string option \<times> jsval) list \<Rightarrow> jsval option list" where
  "assignedIds c [] = []"
| "assignedIds c ((knd, tgt, verb, args) # reqs) =
     (let (p, c1) = createPacket c knd tgt verb args in headerId p # assignedIds c1 reqs)"

text \<open>How often the continuation registered under an id has been called so far.\<close>

fun isInvoked :: "int \<Rightarrow> effect \<Rightarrow> bool" where
  "isInvoked pid (Invoked pid' e rs) = (pid = pid')"
| "isInvoked pid x = False"

definition invocations :: "connection \<Rightarrow> int \<Rightarrow> nat" where
  "invocations c pid = length (filter (isInvoked pid) (trace c))"



text \<open>
  An action is orderly unless it is a call of \<open>callMethod\<close> for the method name
  \<open>call\<close>, where the continuation is stored under an id taken from the arguments.
\<close>

fun orderly :: "action \<Rightarrow> bool" where
  "orderly (CallMethod iface m args cb) = (m \<noteq> ''call'')"
| "orderly a = True"

text \<open>
  What an orderly action can change, as far as the registry of continuations, the id
  counter and the proxies go: the counter stays or advances by the delta; handshakeDone
  is not reset; a stored continuation that was not stored before sits at the id just
  assigned; a continuation is called at most once more, and then it was stored and is no
  longer; a proxy that was not cached before has the identity just allocated.
\<close>

definition follows :: "connection \<Rightarrow> connection \<Rightarrow> bool" where
  "follows c c' =
     (packetIdDelta c' = packetIdDelta c \<and>
      (nextPacketId c' \<noteq> nextPacketId c \<longrightarrow>
         nextPacketId c' = nextPacketId c + packetIdDelta c) \<and>
      (handshakeDone c \<longrightarrow> handshakeDone c') \<and>
      nextRef c \<le> nextRef c' \<and>
      (\<forall>k. callbacks c' k \<noteq> None \<longrightarrow> callbacks c' k \<noteq> callbacks c k \<longrightarrow>
           k = nextPacketId c \<and> nextPacketId c' = nextPacketId c + packetIdDelta c) \<and>
      (\<forall>k. invocations c' k \<noteq> invocations c k \<longrightarrow>
           invocations c' k = Suc (invocations c k) \<and> callbacks c k \<noteq> None \<and>
           callbacks c' k = None) \<and>
      (\<forall>n p. remoteProxies c' n = Some p \<longrightarrow> remoteProxies c n \<noteq> Some p \<longrightarrow>
           proxyRef p = nextRef c \<and> nextRef c < nextRef c'))"

text \<open>
  What any action can change, as far as handshakeDone and the proxies go.
\<close>

definition grows :: "connection \<Rightarrow> connection \<Rightarrow> bool" where
  "grows c c' =
     ((handshakeDone c \<longrightarrow> handshakeDone c') \<and>
      nextRef c \<le> nextRef c' \<and>
      (\<forall>n p. remoteProxies c' n = Some p \<longrightarrow> remoteProxies c n \<noteq> Some p \<longrightarrow>
           proxyRef p = nextRef c \<and> nextRef c < nextRef c'))"








text \<open>
  A text that continues after a value: its first character closes the parenthesis, the
  array or the object, or separates the next element.
\<close>

definition delimited :: "string \<Rightarrow> bool" where
  "delimited rest = (case rest of [] \<Rightarrow> False | d # _ \<Rightarrow> d \<in> set '',)]}'')"

section \<open>Properties\<close>

lemmas conn_defs = log_def createPacket_def headerId_def setHeaderId_def store_def send_def
  stopHeartbeat_def heartbeatCallback_def toPropertyKey_def objectPrototypeNames_def
  startHeartbeat_def endConnection_def close_def onSocketClose_def onSocketError_def
  rejectPacket_def register_def callMethod_def callback_def emitRemoteEvent_def handshake_def
  inspectInterface_def ping_def pong_def invoke_def handshakeError_def processHandshakeRequest_def
  onSessionCreated_def processHandshakeResponse_def processHandshakePacket_def
  remoteCallbackWrapper_def processCallPacket_def callMethodThrew_def processCallbackPacket_def
  processEventPacket_def processInspectPacket_def processPingPacket_def processPongPacket_def
  PACKET_HANDLERS_def processPacket_def

subsection \<open>Heartbeat\<close>

text \<open>
  C9. Receiving the empty packet is a no-op in every state of the connection, before and
  after the handshake: the connection after it is the connection before it, field by
  field, and its log of effects has not grown, so no continuation was called, no packet
  sent, no event emitted and the transport not ended.
\<close>

theorem heartbeat_is_silent:
  "processPacket c Empty = c \<and> step c (Receive Empty) = c"
  by (simp add: processPacket_def)

subsection \<open>Packet ids\<close>

lemma createPacket_framed:
  assumes "verb \<noteq> Some knd"
  shows "headerId (fst (createPacket c knd tgt verb args)) = Some (JNum (nextPacketId c))"
    and "snd (createPacket c knd tgt verb args) = c\<lparr>nextPacketId := nextPacketId c + packetIdDelta c\<rparr>"
  using assms by (auto simp: createPacket_def headerId_def Let_def split: option.splits)

lemma assignedIds_framed:
  assumes "list_all (\<lambda>(knd, tgt, verb, args). verb \<noteq> Some knd) reqs"
  shows "assignedIds c reqs
       = map (\<lambda>k. Some (JNum (nextPacketId c + int k * packetIdDelta c))) [0..<length reqs]"
  using assms
proof (induction reqs arbitrary: c)
  case Nil
  then show ?case by simp
next
  case (Cons r reqs)
  obtain knd tgt verb args where r: "r = (knd, tgt, verb, args)" by (cases r) auto
  with Cons.prems have v: "verb \<noteq> Some knd" and rest: "list_all (\<lambda>(knd, tgt, verb, args). verb \<noteq> Some knd) reqs"
    by simp_all
  have "map (\<lambda>k. Some (JNum (nextPacketId c + int k * packetIdDelta c))) [0..<Suc (length reqs)]
      = Some (JNum (nextPacketId c))
        # map (\<lambda>k. Some (JNum (nextPacketId c + packetIdDelta c + int k * packetIdDelta c)))
            [0..<length reqs]"
    by (simp add: upt_conv_Cons map_Suc_upt[symmetric] algebra_simps del: upt_Suc)
  then show ?case
    using Cons.IH [OF rest] createPacket_framed [OF v, of c tgt args]
    by (simp add: r split_beta)
qed

text \<open>
  C4. The claim: the ids that the packets of a client connection carry are 0, 1, 2, ...,
  not negative and not decreasing. The code at this input: a connection built with a
  client context calls the method named \<open>call\<close> with the arguments \<open>[7, 1]\<close>, sends a
  ping, and calls \<open>call\<close> again with \<open>[-5]\<close>. createPacket assigns the arguments to
  \<open>packet.call\<close>, where it has just put the header, so the first packet is
  \<open>{call: [7, 1]}\<close> and carries 7 where the header had 0; the ping carries 1; the third
  packet carries -5. The ids 7, 1, -5 do not begin at 0, decrease, and end below zero on
  the client side; the continuations are stored under 7 and -5. The counter itself has
  advanced by one each time.
\<close>

theorem header_overwritten_by_arguments:
  "(let c0 = initialFields 0 ''10.0.0.1'' None (Some (Client None)) 1;
        c1 = callMethod c0 ''calc'' ''call'' (JArr [JNum 7, JNum 1]) (Some 5);
        c2 = ping c1 None;
        c3 = callMethod c2 ''calc'' ''call'' (JArr [JNum (- 5)]) None
    in Connection 0 ''10.0.0.1'' None (Some (Client None)) = Inr c0 \<and>
       assignedIds c0 [(''call'', Some ''calc'', Some ''call'', JArr [JNum 7, JNum 1]),
                       (''ping'', None, None, JUndefined),
                       (''call'', Some ''calc'', Some ''call'', JArr [JNum (- 5)])]
         = [Some (JNum 7), Some (JNum 1), Some (JNum (- 5))] \<and>
       trace c3 = [SendObject ''call'' (JArr [JNum 7, JNum 1]),
                   Send (Packet ''ping'' 1 None []),
                   SendObject ''call'' (JArr [JNum (- 5)])] \<and>
       callbacks c3 7 = Some (UserCallback 5) \<and> callbacks c3 (- 5) = Some EmitError \<and>
       callbacks c3 0 = None \<and> callbacks c3 2 = None \<and>
       nextPacketId c1 = 1 \<and> nextPacketId c2 = 2 \<and> nextPacketId c3 = 3)"
  by (simp add: conn_defs Connection_def initialFields_def Let_def)

subsection \<open>Null and functions in the serializer\<close>




lemma map_of_filter_absent:
  "k \<notin> fst ` set kvs \<Longrightarrow> map_of (filter P kvs) k = None"
  by (induction kvs) auto







subsection \<open>What one action changes\<close>

lemmas eval_defs = conn_defs run_def initialFields_def field_def Let_def

lemma invocations_log [simp]:
  "invocations (log c es) k = invocations c k + length (filter (isInvoked k) es)"
  by (simp add: invocations_def log_def)

lemma invocations_upd [simp]:
  "invocations (c\<lparr>callbacks := x\<rparr>) k = invocations c k"
  "invocations (c\<lparr>nextPacketId := y\<rparr>) k = invocations c k"
  "invocations (c\<lparr>handshakeDone := z\<rparr>) k = invocations c k"
  "invocations (c\<lparr>application := a\<rparr>) k = invocations c k"
  "invocations (c\<lparr>username := u\<rparr>) k = invocations c k"
  "invocations (c\<lparr>sessionId := s\<rparr>) k = invocations c k"
  "invocations (c\<lparr>remoteProxies := r\<rparr>) k = invocations c k"
  "invocations (c\<lparr>nextRef := n\<rparr>) k = invocations c k"
  "invocations (c\<lparr>heartbeatCallbackInstance := h\<rparr>) k = invocations c k"
  by (simp_all add: invocations_def)

lemma log_fields [simp]:
  "packetIdDelta (log c es) = packetIdDelta c"
  "nextPacketId (log c es) = nextPacketId c"
  "handshakeDone (log c es) = handshakeDone c"
  "nextRef (log c es) = nextRef c"
  "callbacks (log c es) = callbacks c"
  "remoteProxies (log c es) = remoteProxies c"
  "client (log c es) = client c"
  "server (log c es) = server c"
  "application (log c es) = application c"
  "heartbeatCallbackInstance (log c es) = heartbeatCallbackInstance c"
  by (simp_all add: log_def)

lemmas quiet_defs = createPacket_def headerId_def setHeaderId_def store_def send_def
  stopHeartbeat_def heartbeatCallback_def
  startHeartbeat_def endConnection_def close_def onSocketClose_def onSocketError_def
  rejectPacket_def register_def callMethod_def callback_def emitRemoteEvent_def handshake_def
  inspectInterface_def ping_def pong_def handshakeError_def 
  remoteCallbackWrapper_def callMethodThrew_def

lemma runContinuation_fields [simp]:
  "packetIdDelta (runContinuation k e rs c) = packetIdDelta c"
  "nextPacketId (runContinuation k e rs c) = nextPacketId c"
  "handshakeDone (runContinuation k e rs c) = handshakeDone c"
  "callbacks (runContinuation k e rs c) = callbacks c"
  "invocations (runContinuation k e rs c) pid = invocations c pid"
  by (cases k; simp add: Let_def split: errarg.splits option.splits)+

lemma runContinuation_nextRef: "nextRef c \<le> nextRef (runContinuation k e rs c)"
  by (cases k; simp add: Let_def split: errarg.splits option.splits)

lemma runContinuation_proxies:
  "remoteProxies (runContinuation k e rs c) n = Some p \<Longrightarrow>
     remoteProxies c n = Some p \<or>
     (proxyRef p = nextRef c \<and> nextRef c < nextRef (runContinuation k e rs c))"
  by (cases k; auto simp add: Let_def split: errarg.splits option.splits if_splits)

lemma follows_refl [simp]: "follows c c"
  by (simp add: follows_def)

lemma follows_invoke:
  assumes "callbacks c0 pid = Some k"
    and "packetIdDelta c = packetIdDelta c0" "nextPacketId c = nextPacketId c0"
    and "handshakeDone c0 \<longrightarrow> handshakeDone c" "nextRef c = nextRef c0"
    and "callbacks c = (callbacks c0)(pid := None)" "remoteProxies c = remoteProxies c0"
    and "\<And>j. invocations c j = invocations c0 j"
  shows "follows c0 (invoke pid k e rs c)"
  unfolding follows_def invoke_def
  using assms runContinuation_nextRef [of "log c [Invoked pid e rs]" k e rs]
    runContinuation_proxies [of k e rs "log c [Invoked pid e rs]"]
  by (auto split: if_splits)

lemma follows_drop:
  assumes "packetIdDelta c = packetIdDelta c0" "nextPacketId c = nextPacketId c0"
    and "handshakeDone c0 \<longrightarrow> handshakeDone c" "nextRef c = nextRef c0"
    and "callbacks c = (callbacks c0)(pid := None) \<or> callbacks c = callbacks c0"
    and "remoteProxies c = remoteProxies c0"
    and "\<And>j. invocations c j = invocations c0 j"
  shows "follows c0 c"
  unfolding follows_def using assms by (auto split: if_splits)

lemma follows_processHandshakeRequest: "follows c (processHandshakeRequest c p)"
  by (auto simp: follows_def processHandshakeRequest_def quiet_defs Let_def
      split: option.splits list.splits prod.splits)

lemma follows_onSessionCreated: "follows c (onSessionCreated c e u s)"
  by (auto simp: follows_def onSessionCreated_def quiet_defs Let_def
      split: option.splits list.splits prod.splits)

lemma follows_rejectPacket: "follows c (rejectPacket c p fatal)"
  by (auto simp: follows_def quiet_defs Let_def split: option.splits)

lemma follows_processHandshakeResponse: "follows c (processHandshakeResponse c p)"
proof (cases "callbacks c (packetId p)")
  case None
  then show ?thesis
    unfolding processHandshakeResponse_def Let_def
    by (auto simp: quiet_defs Let_def split: option.splits
        intro!: follows_drop [where pid = "packetId p"])
next
  case (Some k)
  show ?thesis
  proof (cases "truthy (field p ''ok'')")
    case True
    show ?thesis
    proof (cases "client c")
      case None
      with Some True show ?thesis
        unfolding processHandshakeResponse_def Let_def
        by (auto simp: quiet_defs Let_def intro!: follows_drop [where pid = "packetId p"])
    next
      case (Some cl)
      with \<open>callbacks c (packetId p) = Some k\<close> True show ?thesis
        unfolding processHandshakeResponse_def Let_def
        by (simp add: quiet_defs) (rule follows_invoke, simp_all)
    qed
  next
    case False
    show ?thesis
    proof (cases "truthy (field p ''error'')")
      case True
      with Some False show ?thesis
        unfolding processHandshakeResponse_def Let_def
        by (simp add: quiet_defs) (rule follows_invoke, simp_all)
    next
      case False
      with Some \<open>\<not> truthy (field p ''ok'')\<close> show ?thesis
        unfolding processHandshakeResponse_def Let_def
        by (simp add: follows_rejectPacket)
    qed
  qed
qed

lemma follows_processHandshakePacket: "follows c (processHandshakePacket c p)"
  unfolding processHandshakePacket_def
  by (simp add: follows_processHandshakeResponse follows_processHandshakeRequest
      follows_rejectPacket)

lemma follows_processCallbackPacket: "follows c (processCallbackPacket c p)"
proof (cases "callbacks c (packetId p)")
  case None
  then show ?thesis
    unfolding processCallbackPacket_def Let_def by (simp add: follows_rejectPacket)
next
  case (Some k)
  have rej: "follows c (rejectPacket (c\<lparr>callbacks := (callbacks c)(packetId p := None)\<rparr>) p False)"
    by (rule follows_drop [where pid = "packetId p"]) (simp_all add: quiet_defs)
  have thr: "follows c (log (c\<lparr>callbacks := (callbacks c)(packetId p := None)\<rparr>) [Throw TypeError])"
    by (rule follows_drop [where pid = "packetId p"]) (simp_all add: quiet_defs)
  have inv: "follows c (invoke (packetId p) k e rs (c\<lparr>callbacks := (callbacks c)(packetId p := None)\<rparr>))"
    for e rs
    using Some by (rule follows_invoke) simp_all
  from Some show ?thesis
    unfolding processCallbackPacket_def Let_def
    by (simp add: rej thr inv split: option.splits)
qed

lemma follows_processPongPacket: "follows c (processPongPacket c p)"
proof (cases "callbacks c (packetId p)")
  case None
  then show ?thesis
    unfolding processPongPacket_def Let_def by simp
next
  case (Some k)
  have "follows c (invoke (packetId p) k Absent [] (c\<lparr>callbacks := (callbacks c)(packetId p := None)\<rparr>))"
    using Some by (rule follows_invoke) simp_all
  with Some show ?thesis
    unfolding processPongPacket_def Let_def by simp
qed

lemma follows_processCallPacket: "follows c (processCallPacket c p)"
  by (auto simp: follows_def processCallPacket_def quiet_defs Let_def
      split: option.splits list.splits prod.splits)

lemma follows_processEventPacket: "follows c (processEventPacket c p)"
  by (auto simp: follows_def processEventPacket_def quiet_defs Let_def
      split: option.splits list.splits prod.splits)

lemma follows_processInspectPacket: "follows c (processInspectPacket c p)"
  by (auto simp: follows_def processInspectPacket_def quiet_defs Let_def
      split: option.splits list.splits prod.splits)

lemma follows_processPingPacket: "follows c (processPingPacket c p)"
  by (auto simp: follows_def processPingPacket_def quiet_defs Let_def)

lemma follows_toPropertyKey: "follows c (toPropertyKey c p)"
  by (auto simp: follows_def toPropertyKey_def split: option.splits jsval.splits)

lemma follows_log: "list_all (\<lambda>e. \<forall>k. \<not> isInvoked k e) es \<Longrightarrow> follows c (log c es)"
  by (simp add: follows_def list_all_iff)

lemma follows_processPacket: "follows c (processPacket c p)"
  unfolding processPacket_def PACKET_HANDLERS_def
  by (auto split: packet.splits
      simp: follows_rejectPacket follows_processHandshakePacket follows_processCallPacket
        follows_processCallbackPacket follows_processEventPacket follows_processInspectPacket
        follows_processPingPacket follows_processPongPacket follows_toPropertyKey follows_log)

lemma follows_step: "orderly a \<Longrightarrow> follows c (step c a)"
proof (cases a)
  case (Receive p)
  then show ?thesis by (simp add: follows_processPacket)
next
  case (SessionCreated e u s)
  then show ?thesis by (simp add: follows_onSessionCreated)
qed (auto simp: follows_def quiet_defs Let_def split: option.splits prod.splits)





lemma grows_follows: "follows c c' \<Longrightarrow> grows c c'"
  unfolding follows_def grows_def by blast

lemma grows_step: "grows c (step c a)"
proof (cases "orderly a")
  case True
  then show ?thesis by (simp add: follows_step grows_follows)
next
  case False
  then obtain iface args cb where a: "a = CallMethod iface ''call'' args cb"
    by (cases a) auto
  show ?thesis
    by (simp add: a grows_def quiet_defs Let_def split: option.splits)
qed




lemma run_handshakeDone: "handshakeDone c \<Longrightarrow> handshakeDone (run c as)"
  unfolding run_def
proof (induction as arbitrary: c)
  case Nil
  then show ?case by simp
next
  case (Cons a as)
  from grows_step [of c a] Cons.prems have "handshakeDone (step c a)"
    by (simp add: grows_def)
  then show ?case using Cons.IH by simp
qed

subsection \<open>The handshake gate\<close>

text \<open>
  C3. A connection is constructed with handshakeDone false. Once handshakeDone is true
  after some actions it is true after any further actions, so it goes from false to true
  at most once and never back. A packet that is not empty and whose kind is not
  \<open>handshake\<close>, received while handshakeDone is false, is rejected fatally: the
  connection emits packetRejected with the packet and ends the transport (after clearing a
  running heartbeat timer), and handshakeDone stays false. A \<open>handshake\<close> packet
  received while handshakeDone is true is rejected fatally in the same way.
\<close>

theorem handshakeDone_discipline:
  "(Connection i a srv cl = Inr c0 \<longrightarrow> \<not> handshakeDone c0) \<and>
   (handshakeDone (run c as) \<longrightarrow> handshakeDone (run c (as @ bs))) \<and>
   (\<not> handshakeDone c \<and> knd \<noteq> ''handshake'' \<longrightarrow>
      handshakeDone (processPacket c (Packet knd pid tgt vs)) = False \<and>
      trace (processPacket c (Packet knd pid tgt vs)) =
        trace c @ [Emit (PacketRejected (Packet knd pid tgt vs))]
          @ (case heartbeatCallbackInstance c of Some interval \<Rightarrow> [ClearTimeout] | None \<Rightarrow> [])
          @ [End None]) \<and>
   (handshakeDone c \<longrightarrow>
      trace (processPacket c (Packet ''handshake'' pid tgt vs)) =
        trace c @ [Emit (PacketRejected (Packet ''handshake'' pid tgt vs))]
          @ (case heartbeatCallbackInstance c of Some interval \<Rightarrow> [ClearTimeout] | None \<Rightarrow> [])
          @ [End None])"
proof -
  have 0: "Connection i a srv cl = Inr c0 \<longrightarrow> \<not> handshakeDone c0"
    by (auto simp: Connection_def initialFields_def split: if_splits)
  have 1: "handshakeDone (run c as) \<longrightarrow> handshakeDone (run c (as @ bs))"
    using run_handshakeDone [of "run c as" bs] by (simp add: run_def)
  have 2: "\<not> handshakeDone c \<and> knd \<noteq> ''handshake'' \<longrightarrow>
      handshakeDone (processPacket c (Packet knd pid tgt vs)) = False \<and>
      trace (processPacket c (Packet knd pid tgt vs)) =
        trace c @ [Emit (PacketRejected (Packet knd pid tgt vs))]
          @ (case heartbeatCallbackInstance c of Some interval \<Rightarrow> [ClearTimeout] | None \<Rightarrow> [])
          @ [End None]"
    by (simp add: processPacket_def rejectPacket_def endConnection_def stopHeartbeat_def log_def
        split: option.splits)
  have 3: "handshakeDone c \<longrightarrow>
      trace (processPacket c (Packet ''handshake'' pid tgt vs)) =
        trace c @ [Emit (PacketRejected (Packet ''handshake'' pid tgt vs))]
          @ (case heartbeatCallbackInstance c of Some interval \<Rightarrow> [ClearTimeout] | None \<Rightarrow> [])
          @ [End None]"
    by (simp add: processPacket_def PACKET_HANDLERS_def processHandshakePacket_def
        rejectPacket_def endConnection_def stopHeartbeat_def log_def split: option.splits)
  from 0 1 2 3 show ?thesis by blast
qed

theorem handshakeDone_discipline_witness:
  "(let srv = Server [(''jstp'', Application ''jstp'' [])];
        c0 = initialFields 0 ''10.0.0.1'' (Some srv) None (- 1);
        request = Packet ''handshake'' 0 (Some ''jstp'') [];
        call = Packet ''call'' 7 (Some ''x'') [(''f'', JArr [])];
        opened = [Receive request, SessionCreated JNull JNull (JStr ''S-1'')]
    in Connection 0 ''10.0.0.1'' (Some srv) None = Inr c0 \<and>
       \<not> handshakeDone c0 \<and>
       handshakeDone (run c0 opened) \<and>
       handshakeDone (run c0 (opened @ [Receive call, SocketClose])) \<and>
       trace (processPacket c0 call) = [Emit (PacketRejected call), End None] \<and>
       trace (processPacket (run c0 opened) request) =
         trace (run c0 opened) @ [Emit (PacketRejected request), End None])"
proof -
  let ?srv = "Server [(''jstp'', Application ''jstp'' [])]"
  let ?init = "initialFields 0 ''10.0.0.1'' (Some ?srv) None (- 1)"
  let ?request = "Packet ''handshake'' 0 (Some ''jstp'') []"
  let ?call = "Packet ''call'' 7 (Some ''x'') [(''f'', JArr [])]"
  let ?opened = "[Receive ?request, SessionCreated JNull JNull (JStr ''S-1'')]"
  have c0: "Connection 0 ''10.0.0.1'' (Some ?srv) None = Inr ?init"
    by (simp add: Connection_def)
  have fresh: "\<not> handshakeDone ?init"
    by (simp add: initialFields_def)
  have opened: "handshakeDone (run ?init ?opened)"
    by (simp add: eval_defs)
  have hb0: "heartbeatCallbackInstance ?init = None" "trace ?init = []"
    by (simp_all add: initialFields_def)
  have hb1: "heartbeatCallbackInstance (run ?init ?opened) = None"
    by (simp add: eval_defs)
  note a = handshakeDone_discipline [of 0 "''10.0.0.1''" "Some ?srv" None ?init ?init ?opened
      "[Receive ?call, SocketClose]" "''call''" 7 "Some ''x''" "[(''f'', JArr [])]"]
  note b = handshakeDone_discipline [of 0 "''10.0.0.1''" "Some ?srv" None ?init "run ?init ?opened" "[]"
      "[]" "''call''" 0 "Some ''jstp''" "[]"]
  show ?thesis
    unfolding Let_def
    using c0 fresh opened a b hb0 hb1 by simp
qed

subsection \<open>Ping and pong\<close>

text \<open>
  C8. After the handshake a ping packet with id \<open>n\<close> is answered by sending the packet
  \<open>{pong: [n]}\<close> and nothing else happens. On the side that calls \<open>ping\<close>: the ping
  packet goes out under the next id and the callback is stored under it; the pong packet
  with that id calls the stored continuation once (the caller's callback, without
  arguments) and removes it; a second pong with the same id leaves the connection as it
  is, with nothing called and nothing logged.
\<close>

theorem ping_pong:
  assumes "handshakeDone c"
  shows "processPacket c (Packet ''ping'' n tgt vs) = log c [Send (Packet ''pong'' n None [])] \<and>
    (let pid = nextPacketId c;
         c1 = ping c cb;
         c2 = processPacket c1 (Packet ''pong'' pid tgt1 vs1)
     in trace c1 = trace c @ [Send (Packet ''ping'' pid None [])] \<and>
        callbacks c1 pid = Some (case cb of Some f \<Rightarrow> UserCallback f | None \<Rightarrow> DoNothing) \<and>
        trace c2 = trace c1 @ Invoked pid Absent []
                     # (case cb of Some f \<Rightarrow> [Called f Absent []] | None \<Rightarrow> []) \<and>
        invocations c2 pid = Suc (invocations c1 pid) \<and>
        callbacks c2 pid = None \<and>
        processPacket c2 (Packet ''pong'' pid tgt2 vs2) = c2)"
  using assms
  by (auto simp: conn_defs Let_def invocations_def split: option.splits)

theorem ping_pong_witness:
  "(let c0 = initialFields 0 ''10.0.0.1'' None (Some (Client (Some (Application ''jstp'' [])))) 1;
        c = run c0 [Handshake ''app'' JUndefined JUndefined None,
                    Receive (Packet ''handshake'' 0 None [(''ok'', JStr ''S-1'')])];
        c1 = ping c (Some 9);
        c2 = processPacket c1 (Packet ''pong'' 1 None [])
    in handshakeDone c \<and> nextPacketId c = 1 \<and>
       processPacket c (Packet ''ping'' 4 None []) = log c [Send (Packet ''pong'' 4 None [])] \<and>
       trace c1 = trace c @ [Send (Packet ''ping'' 1 None [])] \<and>
       callbacks c1 1 = Some (UserCallback 9) \<and>
       trace c2 = trace c1 @ [Invoked 1 Absent [], Called 9 Absent []] \<and>
       callbacks c2 1 = None \<and>
       processPacket c2 (Packet ''pong'' 1 None []) = c2)"
proof -
  let ?init = "initialFields 0 ''10.0.0.1'' None (Some (Client (Some (Application ''jstp'' [])))) 1"
  let ?c = "run ?init [Handshake ''app'' JUndefined JUndefined None,
                    Receive (Packet ''handshake'' 0 None [(''ok'', JStr ''S-1'')])]"
  have hsd: "handshakeDone ?c" by (simp add: eval_defs)
  have next1: "nextPacketId ?c = 1" by (simp add: eval_defs)
  show ?thesis
    unfolding Let_def
    using hsd next1 ping_pong [OF hsd, of 4 None "[]" "Some 9" None "[]" None "[]"]
    by (simp add: Let_def)
qed

subsection \<open>A handshake response that nobody waits for\<close>

text \<open>
  C2. The claim: a handshake response under whose id no callback is registered is
  rejected and nothing more happens, handshakeDone and application stay as they are.
  The code at this input: a client connection that has sent nothing receives
  \<open>{handshake: [0], ok: 'S-1'}\<close>. It emits packetRejected, and then goes on: it sets
  handshakeDone, attaches the client's application and calls the missing callback, which
  raises a TypeError. The \<open>return\<close> after the rejection is missing.
\<close>

theorem handshake_response_without_callback:
  "(let app = Application ''jstp'' [];
        c0 = initialFields 0 ''10.0.0.1'' None (Some (Client (Some app))) 1;
        p = Packet ''handshake'' 0 None [(''ok'', JStr ''S-1'')];
        c1 = processPacket c0 p
    in callbacks c0 0 = None \<and> \<not> handshakeDone c0 \<and> application c0 = None \<and>
       trace c1 = [Emit (PacketRejected p), Throw TypeError] \<and>
       handshakeDone c1 \<and> application c1 = Some app)"
  by (simp add: eval_defs)

subsection \<open>Authentication of a handshake request\<close>

text \<open>
  C6, as stated, fails: a server connection that receives a handshake request for a
  known application and whose authentication then fails is not left unchanged apart
  from closing. The application was attached when the request was processed, before the
  authentication, and stays attached; the id counter has advanced for the error packet.
\<close>

theorem failed_authentication_counterexample:
  "(let app = Application ''jstp'' [];
        c0 = initialFields 0 ''10.0.0.1'' (Some (Server [(''jstp'', app)])) None (- 1);
        c1 = processPacket c0 (Packet ''handshake'' 0 (Some ''jstp'') [(''login'', JArr [JStr ''u'', JStr ''bad'']) ]);
        c2 = onSessionCreated c1 (JNum 2) JNull JNull
    in application c0 = None \<and> application c2 = Some app \<and>
       nextPacketId c0 = 0 \<and> nextPacketId c2 = - 1 \<and>
       trace c2 = [StartSession app ''login'' (JArr [JStr ''u'', JStr ''bad'']),
                   End (Some (Packet ''handshake'' 0 None [(''error'', JArr [JNum 2])]))])"
  by (simp add: eval_defs getJstpArrayFor_def ERR_AUTH_FAILED_def)

text \<open>
  C6, amended. Processing a handshake request for a known application on a server
  connection attaches the application and asks the server to start a session; nothing
  else changes yet. When the authentication fails, the connection responds with the
  handshake error AuthFailed (code 2) and ends the transport; handshakeDone, username and
  sessionId are as before, and the application stays attached. When it succeeds, the
  connection sets username, handshakeDone and sessionId, emits the client and connect
  events and sends the handshake ok packet with the sessionId.
\<close>

theorem handshake_request_authentication:
  assumes "server c = Some srv" and "\<not> handshakeDone c" and "name \<noteq> []"
    and "map_of (applications srv) name = Some app"
  shows
    "(let c1 = processPacket c (Packet ''handshake'' pid (Some name) vs);
          failed = onSessionCreated c1 err uname sid;
          succeeded = onSessionCreated c1 err uname sid
      in application c1 = Some app \<and> \<not> handshakeDone c1 \<and>
         username c1 = username c \<and> sessionId c1 = sessionId c \<and>
         trace c1 = trace c @
           [case vs of
              [] \<Rightarrow> StartSession app ''anonymous'' JUndefined
            | (k, v) # _ \<Rightarrow>
                if k \<noteq> [] then StartSession app k v
                else StartSession app ''anonymous'' (JStr [])] \<and>
         (truthy err \<longrightarrow>
            \<not> handshakeDone failed \<and> username failed = username c \<and>
            sessionId failed = sessionId c \<and> application failed = Some app \<and>
            nextPacketId failed = nextPacketId c + packetIdDelta c \<and>
            trace failed = trace c1
              @ (case heartbeatCallbackInstance c of Some interval \<Rightarrow> [ClearTimeout] | None \<Rightarrow> [])
              @ [End (Some (Packet ''handshake'' (nextPacketId c) None
                              [(''error'', JArr [JNum 2])]))]) \<and>
         (\<not> truthy err \<longrightarrow>
            handshakeDone succeeded \<and> username succeeded = uname \<and>
            sessionId succeeded = sid \<and> application succeeded = Some app \<and>
            trace succeeded = trace c1 @
              [Emit (ClientEvent sid), ServerEmit Connect,
               Send (Packet ''handshake'' (nextPacketId c) None [(''ok'', sid)])]))"
  using assms
  by (auto simp: conn_defs Let_def getJstpArrayFor_def ERR_AUTH_FAILED_def
      split: list.splits option.splits)

theorem handshake_request_authentication_witness:
  "(let app = Application ''jstp'' [];
        srv = Server [(''jstp'', app)];
        c = initialFields 0 ''10.0.0.1'' (Some srv) None (- 1);
        c1 = processPacket c (Packet ''handshake'' 0 (Some ''jstp'') [(''login'', JArr [JStr ''u'', JStr ''pw''])]);
        failed = onSessionCreated c1 (JNum 2) JNull JNull;
        succeeded = onSessionCreated c1 JNull (JStr ''u'') (JStr ''S-1'')
    in server c = Some srv \<and> \<not> handshakeDone c \<and> map_of (applications srv) ''jstp'' = Some app \<and>
       application c1 = Some app \<and>
       trace c1 = [StartSession app ''login'' (JArr [JStr ''u'', JStr ''pw''])] \<and>
       \<not> handshakeDone failed \<and> username failed = JNull \<and> sessionId failed = JNull \<and>
       application failed = Some app \<and> nextPacketId failed = - 1 \<and>
       trace failed = trace c1 @ [End (Some (Packet ''handshake'' 0 None [(''error'', JArr [JNum 2])]))] \<and>
       handshakeDone succeeded \<and> username succeeded = JStr ''u'' \<and>
       sessionId succeeded = JStr ''S-1'' \<and>
       trace succeeded = trace c1 @
         [Emit (ClientEvent (JStr ''S-1'')), ServerEmit Connect,
          Send (Packet ''handshake'' 0 None [(''ok'', JStr ''S-1'')])])"
proof -
  let ?app = "Application ''jstp'' []"
  let ?srv = "Server [(''jstp'', ?app)]"
  let ?c = "initialFields 0 ''10.0.0.1'' (Some ?srv) None (- 1)"
  have h: "server ?c = Some ?srv" "\<not> handshakeDone ?c" "''jstp'' \<noteq> []"
    "map_of (applications ?srv) ''jstp'' = Some ?app"
    by (simp_all add: initialFields_def)
  have f: "username ?c = JNull" "sessionId ?c = JNull" "trace ?c = []" "nextPacketId ?c = 0"
    "heartbeatCallbackInstance ?c = None" "packetIdDelta ?c = - 1"
    by (simp_all add: initialFields_def)
  note a = handshake_request_authentication [OF h, of 0 "[(''login'', JArr [JStr ''u'', JStr ''pw''])]"
      "JNum 2" JNull JNull]
  note b = handshake_request_authentication [OF h, of 0 "[(''login'', JArr [JStr ''u'', JStr ''pw''])]"
      JNull "JStr ''u''" "JStr ''S-1''"]
  show ?thesis
    using h a b unfolding Let_def f by simp
qed

subsection \<open>Inspecting an interface\<close>






subsection \<open>The registry of continuations\<close>




subsection \<open>Serializing and parsing back\<close>
















lemma delimited_cons [simp]:
  "delimited (CHR '','' # r)" "delimited (CHR '']'' # r)" "delimited (CHR ''}'' # r)"
  "delimited (CHR '')'' # r)"
  by (simp_all add: delimited_def)



















end
